theory Spec2Isabelle
  imports Main "HOL-Library.Word" "HOL-Library.AList"
begin

section \<open>Errors, outcomes and the outside world\<close>

text \<open>
  Every \<open>fmt.Errorf\<close> of \<open>pkg/tools/whatsapp.go\<close> and
  \<open>pkg/tools/whatsapp_manager.go\<close> is one constructor; a wrapped error (\<open>%w\<close>) is
  an argument. \<open>External\<close> stands for an error value produced by a library outside the
  repository (whatsmeow, sqlstore, os, encoding/json).
\<close>

datatype error =
    External string
  | ClientNotInitialized
  | DownloadImageFailed error
  | HistoricalImageNotFound string
  | DownloadHistoricalFailed string error
  | SaveHistoricalFailed string error
  | MarshalMetadataFailed error
  | SaveMetadataFailed string error
  | ReadMetadataFailed string error
  | UnmarshalMetadataFailed error
  | DownloadHistorySyncFailed error
  | ClientAlreadyExists string
  | DeviceStoreFailed string error
  | GetDeviceFailed string error
  | ClientNotFound string
  | ClientAlreadyConnected string
  | ConnectQRFailed string error
  | ConnectExistingFailed string error
  | ClientNotConnected string
  | ConnectClientFailed string error
  | ConnectionErrors "error list"
  | DisconnectClientFailed string error
  | DisconnectionErrors "error list"
  | RemoveFileFailed string error
  | GlobDatabasesFailed error
  | CleanupErrors "error list"

text \<open>
  A Go call either returns or panics. \<open>Panicked\<close> carries the runtime's message.
\<close>

datatype 'a exec = Done 'a | Panicked string

text \<open>
  The file system is a table from path to content, one entry per file, keyed by the
  path under which the \<open>os\<close> calls reach it. \<open>os.Stat\<close> succeeds on exactly the
  paths of the table.
\<close>

type_synonym filesystem = "(string \<times> string) list"

definition Stat :: "filesystem \<Rightarrow> string \<Rightarrow> bool" where
  "Stat fs path = (map_of fs path \<noteq> None)"

section \<open>The media index: \<open>WhatsAppDownloader\<close>\<close>

text \<open>
  \<open>HistoryImageInfo\<close>, field for field. The JID type and the protobuf image message
  are opaque to this code, so they are type parameters. \<open>Timestamp\<close> is
  \<open>time.Unix(sec, 0)\<close>, kept as its number of seconds.
\<close>

record ('jid, 'img) HistoryImageInfo =
  MessageID :: string
  ChatJID :: 'jid
  SenderJID :: 'jid
  Timestamp :: int
  ImageMsg :: 'img
  FileName :: string

text \<open>
  A Go map value is either \<open>nil\<close> (\<open>None\<close>) or a table. Reading a nil map
  behaves like reading an empty one; writing to it panics.
\<close>

type_synonym ('jid, 'img) history_map =
  "(string \<times> ('jid, 'img) HistoryImageInfo) list option"

datatype client_ptr = NilClient | ClientPtr

record ('jid, 'img) WhatsAppDownloader =
  client :: client_ptr
  historyImages :: "('jid, 'img) history_map"

text \<open>
  What the code calls outside the repository, taken as parameters:
  \<open>types.ParseJID\<close>, \<open>time.Time.Format("20060102_150405")\<close> (of a number of
  seconds, in the local zone), \<open>Client.Download\<close>, \<open>json.MarshalIndent\<close> and
  \<open>json.Unmarshal\<close> at type \<open>map[string]HistoryImageInfo\<close>, and whether and how
  \<open>os.ReadFile\<close> / \<open>os.WriteFile\<close> fail on a path. \<open>os.WriteFile\<close> opens the path
  (creating or truncating the file), writes and closes: it fails at the open, before
  anything is created or changed, or after it, with only the first \<open>n\<close> bytes of the
  data in the file (\<open>n = 0\<close>: an empty file).
\<close>

datatype write_failure = OpenFailed error | WriteFailed error nat

record ('jid, 'img) collaborators =
  ParseJID :: "string \<Rightarrow> error + 'jid"
  FormatTime :: "int \<Rightarrow> string"
  Download :: "'img \<Rightarrow> error + string"
  MarshalIndent :: "('jid, 'img) history_map \<Rightarrow> error + string"
  Unmarshal :: "string \<Rightarrow> error + ('jid, 'img) history_map"
  ReadFileError :: "string \<Rightarrow> error option"
  WriteFileFailure :: "string \<Rightarrow> write_failure option"

text \<open>
  The mutable world outside the process: the files, and the log of the calls made to
  \<open>Client.Download\<close> (one entry per call, in order).
\<close>

record 'img world =
  files :: filesystem
  downloadLog :: "'img list"

definition NewWhatsAppDownloader :: "client_ptr \<Rightarrow> ('jid, 'img) WhatsAppDownloader" where
  "NewWhatsAppDownloader c = \<lparr>client = c, historyImages = Some []\<rparr>"

subsection \<open>The history-sync records\<close>

text \<open>
  The parts of \<open>waHistorySync.HistorySync\<close> that \<open>processHistorySyncData\<close> reads,
  through the nil-safe protobuf getters: a conversation has an ID and messages; a history
  message may hold a \<open>WebMessageInfo\<close>; that has a key ID (\<open>""\<close> when absent), a
  \<open>uint64\<close> timestamp, and possibly a \<open>Message\<close>, which possibly holds an image
  message.
\<close>

datatype 'img Message = Message (GetImageMessage: "'img option")

record 'img WebMessageInfo =
  KeyID :: string
  MessageTimestamp :: "64 word"
  Msg :: "'img Message option"

datatype 'img HistorySyncMsg = HistorySyncMsg (GetMessage: "'img WebMessageInfo option")

record 'img Conversation =
  ID :: string
  Messages :: "'img HistorySyncMsg list"

type_synonym 'img HistorySync = "'img Conversation list"

text \<open>
  The body of the inner loop for one message holding an image: build the
  \<open>HistoryImageInfo\<close> (lines 147-167).
\<close>

definition imageInfo_of ::
  "('jid, 'img) collaborators \<Rightarrow> 'jid \<Rightarrow> 'img WebMessageInfo \<Rightarrow> 'img \<Rightarrow>
   ('jid, 'img) HistoryImageInfo" where
  "imageInfo_of E jid webMsg imgMsg =
     (let timestamp = sint (MessageTimestamp webMsg);
          filename = ''historical_'' @ FormatTime E timestamp @ ''_'' @ KeyID webMsg @ ''.jpg''
      in \<lparr>MessageID = KeyID webMsg, ChatJID = jid, SenderJID = jid,
          Timestamp = timestamp, ImageMsg = imgMsg, FileName = filename\<rparr>)"

text \<open>
  \<open>wd.historyImages[string(msgInfo.ID)] = imageInfo\<close> (line 171): an upsert, and a
  panic on a nil map.
\<close>

definition store_image ::
  "('jid, 'img) WhatsAppDownloader \<Rightarrow> ('jid, 'img) HistoryImageInfo \<Rightarrow>
   ('jid, 'img) WhatsAppDownloader exec" where
  "store_image wd info =
     (case historyImages wd of
        None \<Rightarrow> Panicked ''assignment to entry in nil map''
      | Some tbl \<Rightarrow> Done (wd\<lparr>historyImages := Some (AList.update (MessageID info) info tbl)\<rparr>))"

text \<open>The loop over the messages of one conversation (lines 136-176).\<close>

fun process_messages ::
  "('jid, 'img) collaborators \<Rightarrow> 'jid \<Rightarrow> 'img HistorySyncMsg list \<Rightarrow>
   ('jid, 'img) WhatsAppDownloader \<Rightarrow> ('jid, 'img) WhatsAppDownloader exec" where
  "process_messages E jid [] wd = Done wd"
| "process_messages E jid (historyMsg # rest) wd =
     (case GetMessage historyMsg of
        None \<Rightarrow> process_messages E jid rest wd
      | Some webMsg \<Rightarrow>
          (case Msg webMsg of
             None \<Rightarrow> process_messages E jid rest wd
           | Some m \<Rightarrow>
               (case GetImageMessage m of
                  None \<Rightarrow> process_messages E jid rest wd
                | Some imgMsg \<Rightarrow>
                    (case store_image wd (imageInfo_of E jid webMsg imgMsg) of
                       Panicked p \<Rightarrow> Panicked p
                     | Done wd' \<Rightarrow> process_messages E jid rest wd'))))"

text \<open>
  The loop over the conversations (lines 123-177). A conversation whose ID does not
  parse is skipped whole. (A conversation with \<open>Messages == nil\<close> is skipped; a nil
  slice is the empty list, over which the inner loop does nothing.)
\<close>

fun process_conversations ::
  "('jid, 'img) collaborators \<Rightarrow> 'img Conversation list \<Rightarrow>
   ('jid, 'img) WhatsAppDownloader \<Rightarrow> ('jid, 'img) WhatsAppDownloader exec" where
  "process_conversations E [] wd = Done wd"
| "process_conversations E (conversation # rest) wd =
     (if Messages conversation = [] then process_conversations E rest wd
      else case ParseJID E (ID conversation) of
             Inl err \<Rightarrow> process_conversations E rest wd
           | Inr jid \<Rightarrow>
               (case process_messages E jid (Messages conversation) wd of
                  Panicked p \<Rightarrow> Panicked p
                | Done wd' \<Rightarrow> process_conversations E rest wd'))"

text \<open>
  \<open>processHistorySyncData\<close>: the returned slice is \<open>downloadedFiles\<close>, declared at
  line 120 and returned at line 179 with nothing ever appended to it.
\<close>

definition processHistorySyncData ::
  "('jid, 'img) collaborators \<Rightarrow> ('jid, 'img) WhatsAppDownloader \<Rightarrow> 'img HistorySync \<Rightarrow>
   (('jid, 'img) WhatsAppDownloader \<times> (error + string list)) exec" where
  "processHistorySyncData E wd historySync =
     (if client wd = NilClient then Done (wd, Inl ClientNotInitialized)
      else let downloadedFiles = [] in
        (case process_conversations E historySync wd of
           Panicked p \<Rightarrow> Panicked p
         | Done wd' \<Rightarrow> Done (wd', Inr downloadedFiles)))"

text \<open>
  \<open>ProcessHistorySync\<close>: \<open>Client.DownloadHistorySync\<close> is the library's; its result
  is the argument \<open>blob\<close>.
\<close>

definition ProcessHistorySync ::
  "('jid, 'img) collaborators \<Rightarrow> ('jid, 'img) WhatsAppDownloader \<Rightarrow>
   (error + 'img HistorySync) \<Rightarrow>
   (('jid, 'img) WhatsAppDownloader \<times> (error + string list)) exec" where
  "ProcessHistorySync E wd blob =
     (if client wd = NilClient then Done (wd, Inl ClientNotInitialized)
      else case blob of
             Inl err \<Rightarrow> Done (wd, Inl (DownloadHistorySyncFailed err))
           | Inr historySync \<Rightarrow> processHistorySyncData E wd historySync)"

definition GetHistoricalImageInfo ::
  "('jid, 'img) WhatsAppDownloader \<Rightarrow> string \<Rightarrow> ('jid, 'img) HistoryImageInfo option" where
  "GetHistoricalImageInfo wd messageID =
     (case historyImages wd of None \<Rightarrow> None | Some tbl \<Rightarrow> map_of tbl messageID)"

definition ListHistoricalImages ::
  "('jid, 'img) WhatsAppDownloader \<Rightarrow> ('jid, 'img) HistoryImageInfo list" where
  "ListHistoricalImages wd =
     (case historyImages wd of None \<Rightarrow> [] | Some tbl \<Rightarrow> map snd tbl)"

subsection \<open>Snapshot: \<open>SaveHistoryMetadata\<close> and \<open>LoadHistoryMetadata\<close>\<close>

definition ReadFile ::
  "('jid, 'img) collaborators \<Rightarrow> filesystem \<Rightarrow> string \<Rightarrow> error + string" where
  "ReadFile E fs path =
     (case ReadFileError E path of
        Some err \<Rightarrow> Inl err
      | None \<Rightarrow> (case map_of fs path of
                   None \<Rightarrow> Inl (External ''no such file or directory'')
                 | Some data \<Rightarrow> Inr data))"

text \<open>
  \<open>os.WriteFile\<close>: the files after the call, and the error. On success the path holds
  the data; a failure after the open leaves the truncated or partly written file.
\<close>

definition WriteFile ::
  "('jid, 'img) collaborators \<Rightarrow> filesystem \<Rightarrow> string \<Rightarrow> string \<Rightarrow>
   filesystem \<times> error option" where
  "WriteFile E fs path data =
     (case WriteFileFailure E path of
        None \<Rightarrow> (AList.update path data fs, None)
      | Some (OpenFailed err) \<Rightarrow> (fs, Some err)
      | Some (WriteFailed err n) \<Rightarrow> (AList.update path (take n data) fs, Some err))"

definition SaveHistoryMetadata ::
  "('jid, 'img) collaborators \<Rightarrow> ('jid, 'img) WhatsAppDownloader \<Rightarrow> string \<Rightarrow>
   'img world \<Rightarrow> 'img world \<times> error option" where
  "SaveHistoryMetadata E wd filename w =
     (case MarshalIndent E (historyImages wd) of
        Inl err \<Rightarrow> (w, Some (MarshalMetadataFailed err))
      | Inr data \<Rightarrow>
          (case WriteFile E (files w) filename data of
             (fs', Some err) \<Rightarrow> (w\<lparr>files := fs'\<rparr>, Some (SaveMetadataFailed filename err))
           | (fs', None) \<Rightarrow> (w\<lparr>files := fs'\<rparr>, None)))"

definition LoadHistoryMetadata ::
  "('jid, 'img) collaborators \<Rightarrow> ('jid, 'img) WhatsAppDownloader \<Rightarrow> string \<Rightarrow>
   'img world \<Rightarrow> ('jid, 'img) WhatsAppDownloader \<times> error option" where
  "LoadHistoryMetadata E wd filename w =
     (case ReadFile E (files w) filename of
        Inl err \<Rightarrow> (wd, Some (ReadMetadataFailed filename err))
      | Inr data \<Rightarrow>
          (case Unmarshal E data of
             Inl err \<Rightarrow> (wd, Some (UnmarshalMetadataFailed err))
           | Inr loadedImages \<Rightarrow> (wd\<lparr>historyImages := loadedImages\<rparr>, None)))"

subsection \<open>Fetch on demand\<close>

definition DownloadImage ::
  "('jid, 'img) collaborators \<Rightarrow> ('jid, 'img) WhatsAppDownloader \<Rightarrow> 'img \<Rightarrow>
   'img world \<Rightarrow> 'img world \<times> (error + string)" where
  "DownloadImage E wd imgMsg w =
     (if client wd = NilClient then (w, Inl ClientNotInitialized)
      else let w' = w\<lparr>downloadLog := downloadLog w @ [imgMsg]\<rparr> in
        (case Download E imgMsg of
           Inl err \<Rightarrow> (w', Inl (DownloadImageFailed err))
         | Inr data \<Rightarrow> (w', Inr data)))"

definition DownloadHistoricalImage ::
  "('jid, 'img) collaborators \<Rightarrow> ('jid, 'img) WhatsAppDownloader \<Rightarrow>
   ('jid, 'img) HistoryImageInfo \<Rightarrow> 'img world \<Rightarrow> 'img world \<times> (error + string)" where
  "DownloadHistoricalImage E wd imageInfo w =
     (if client wd = NilClient then (w, Inl ClientNotInitialized)
      else if Stat (files w) (FileName imageInfo) then (w, Inr (FileName imageInfo))
      else case DownloadImage E wd (ImageMsg imageInfo) w of
             (w', Inl err) \<Rightarrow> (w', Inl (DownloadHistoricalFailed (MessageID imageInfo) err))
           | (w', Inr imageData) \<Rightarrow>
               (case WriteFile E (files w') (FileName imageInfo) imageData of
                  (fs', Some err) \<Rightarrow>
                    (w'\<lparr>files := fs'\<rparr>, Inl (SaveHistoricalFailed (FileName imageInfo) err))
                | (fs', None) \<Rightarrow> (w'\<lparr>files := fs'\<rparr>, Inr (FileName imageInfo))))"

definition DownloadHistoricalImageByMessageID ::
  "('jid, 'img) collaborators \<Rightarrow> ('jid, 'img) WhatsAppDownloader \<Rightarrow> string \<Rightarrow>
   'img world \<Rightarrow> 'img world \<times> (error + string)" where
  "DownloadHistoricalImageByMessageID E wd messageID w =
     (case GetHistoricalImageInfo wd messageID of
        None \<Rightarrow> (w, Inl (HistoricalImageNotFound messageID))
      | Some imageInfo \<Rightarrow> DownloadHistoricalImage E wd imageInfo w)"

section \<open>The registry: \<open>WhatsAppManager\<close>\<close>

text \<open>
  The whatsmeow client, as far as this code drives it: the handlers this code has added
  with \<open>AddEventHandler\<close>, in order (the library appends and never drops one of them
  on its own; the handler that \<open>GetQRChannel\<close> installs for itself is the library's and
  is not listed), whether \<open>Store.ID\<close> is set, and the calls this code has made to
  \<open>GetQRChannel\<close>, \<open>Connect\<close> and \<open>Disconnect\<close>, in order. Whether the transport is
  open is the library's own state and is not part of the model.
\<close>

datatype handler = HistorySyncHandler | ConnectionStateHandler

datatype client_call = CallGetQRChannel | CallConnect | CallDisconnect

record whatsmeow_Client =
  eventHandlers :: "handler list"
  StoreID :: bool
  calls :: "client_call list"

text \<open>
  \<open>WhatsAppInstance\<close>. \<open>Client\<close> and \<open>Downloader.client\<close> are the same pointer
  (lines 82-85): the pointee is kept once, in \<open>Client\<close>, and the downloader keeps
  whether its pointer is nil.
\<close>

record ('jid, 'img) WhatsAppInstance =
  Client :: whatsmeow_Client
  Downloader :: "('jid, 'img) WhatsAppDownloader"
  Database :: string
  PhoneID :: string
  Connected :: bool

record ('jid, 'img) WhatsAppManager =
  instances :: "(string \<times> ('jid, 'img) WhatsAppInstance) list"
  dbDir :: string

text \<open>
  \<open>NewWhatsAppManager\<close> (the \<open>os.MkdirAll\<close> only logs on failure).
\<close>

definition NewWhatsAppManager :: "string \<Rightarrow> ('jid, 'img) WhatsAppManager" where
  "NewWhatsAppManager dir =
     \<lparr>instances = [], dbDir = (if dir = [] then ''./data'' else dir)\<rparr>"

text \<open>
  \<open>generateDatabaseName\<close>; \<open>timestamp\<close> is \<open>time.Now().Format("20060102_150405")\<close>.
\<close>

definition generateDatabaseName ::
  "('jid, 'img) WhatsAppManager \<Rightarrow> string \<Rightarrow> string \<Rightarrow> string" where
  "generateDatabaseName wm phoneID timestamp =
     dbDir wm @ ''/whatsapp_'' @ phoneID @ ''_'' @ timestamp @ ''.db''"

text \<open>
  What \<open>sqlstore.New\<close> and \<open>GetFirstDevice\<close> answer inside \<open>AddClient\<close>: the
  first fails, or the second fails, or a device comes back, with or without a stored ID.
\<close>

datatype device_outcome = StoreError error | DeviceError error | Device bool

definition AddClient ::
  "('jid, 'img) WhatsAppManager \<Rightarrow> string \<Rightarrow> string \<Rightarrow> device_outcome \<Rightarrow>
   ('jid, 'img) WhatsAppManager \<times> (error + ('jid, 'img) WhatsAppInstance)" where
  "AddClient wm phoneID timestamp outcome =
     (if map_of (instances wm) phoneID \<noteq> None then (wm, Inl (ClientAlreadyExists phoneID))
      else let dbPath = generateDatabaseName wm phoneID timestamp in
        (case outcome of
           StoreError err \<Rightarrow> (wm, Inl (DeviceStoreFailed phoneID err))
         | DeviceError err \<Rightarrow> (wm, Inl (GetDeviceFailed phoneID err))
         | Device hasID \<Rightarrow>
             (let c = \<lparr>eventHandlers = [], StoreID = hasID, calls = []\<rparr>;
                  downloader = NewWhatsAppDownloader ClientPtr;
                  instance = \<lparr>Client = c, Downloader = downloader, Database = dbPath,
                              PhoneID = phoneID, Connected = False\<rparr>
              in (wm\<lparr>instances := AList.update phoneID instance (instances wm)\<rparr>,
                  Inr instance))))"

definition GetClient ::
  "('jid, 'img) WhatsAppManager \<Rightarrow> string \<Rightarrow> error + ('jid, 'img) WhatsAppInstance" where
  "GetClient wm phoneID =
     (case map_of (instances wm) phoneID of
        None \<Rightarrow> Inl (ClientNotFound phoneID)
      | Some instance \<Rightarrow> Inr instance)"

definition Disconnect :: "whatsmeow_Client \<Rightarrow> whatsmeow_Client" where
  "Disconnect c = c\<lparr>calls := calls c @ [CallDisconnect]\<rparr>"

text \<open>
  \<open>RemoveClient\<close>: the \<open>Disconnect\<close> of a connected instance acts on the object
  that leaves the registry with this call, so the registry after the call does not show it.
\<close>

definition RemoveClient ::
  "('jid, 'img) WhatsAppManager \<Rightarrow> string \<Rightarrow> ('jid, 'img) WhatsAppManager \<times> error option" where
  "RemoveClient wm phoneID =
     (case map_of (instances wm) phoneID of
        None \<Rightarrow> (wm, Some (ClientNotFound phoneID))
      | Some instance \<Rightarrow> (wm\<lparr>instances := AList.delete phoneID (instances wm)\<rparr>, None))"

text \<open>
  \<open>AddHistorySyncHandlers\<close> and \<open>Client.AddEventHandler\<close>: each call appends one
  handler to the client's list.
\<close>

definition AddEventHandler :: "whatsmeow_Client \<Rightarrow> handler \<Rightarrow> whatsmeow_Client" where
  "AddEventHandler c h = c\<lparr>eventHandlers := eventHandlers c @ [h]\<rparr>"

definition AddHistorySyncHandlers ::
  "('jid, 'img) WhatsAppDownloader \<Rightarrow> whatsmeow_Client \<Rightarrow> whatsmeow_Client" where
  "AddHistorySyncHandlers wd c =
     (if client wd = NilClient then c else AddEventHandler c HistorySyncHandler)"

text \<open>
  The pointer \<open>instance\<close> is shared with the registry: a write through it is a write
  to the registry's entry.
\<close>

definition put_instance ::
  "('jid, 'img) WhatsAppManager \<Rightarrow> string \<Rightarrow> ('jid, 'img) WhatsAppInstance \<Rightarrow>
   ('jid, 'img) WhatsAppManager" where
  "put_instance wm phoneID instance =
     wm\<lparr>instances := AList.update phoneID instance (instances wm)\<rparr>"

text \<open>
  \<open>ConnectClient\<close>. \<open>connectResult\<close> is what \<open>instance.Client.Connect()\<close> returns
  on this call (\<open>None\<close> is a nil error). On the branch without a stored ID the code
  asks for the QR channel (dropping the error of that call), connects, and then reads
  the channel until the library closes it, printing the codes; the library closes it when
  pairing succeeds, times out or fails, and \<open>paired\<close> says whether it was a success, in
  which case the library has stored the ID. The code returns nil however the channel
  ended. The \<open>Connected\<close> flag is not written here: the handler registered at lines
  150-168 sets it when the library delivers the event.
\<close>

definition ConnectClient ::
  "('jid, 'img) WhatsAppManager \<Rightarrow> string \<Rightarrow> error option \<Rightarrow> bool \<Rightarrow>
   ('jid, 'img) WhatsAppManager \<times> error option" where
  "ConnectClient wm phoneID connectResult paired =
     (case GetClient wm phoneID of
        Inl err \<Rightarrow> (wm, Some err)
      | Inr instance \<Rightarrow>
          (if Connected instance then (wm, Some (ClientAlreadyConnected phoneID))
           else let c1 = AddHistorySyncHandlers (Downloader instance) (Client instance);
                    c2 = AddEventHandler c1 ConnectionStateHandler
                in if \<not> StoreID c2 then
                     (let c3 = c2\<lparr>calls := calls c2 @ [CallGetQRChannel, CallConnect]\<rparr> in
                      case connectResult of
                        Some err \<Rightarrow> (put_instance wm phoneID (instance\<lparr>Client := c3\<rparr>),
                                     Some (ConnectQRFailed phoneID err))
                      | None \<Rightarrow> (put_instance wm phoneID
                                   (instance\<lparr>Client := c3\<lparr>StoreID := paired\<rparr>\<rparr>), None))
                   else
                     (let c3 = c2\<lparr>calls := calls c2 @ [CallConnect]\<rparr> in
                      case connectResult of
                        Some err \<Rightarrow> (put_instance wm phoneID (instance\<lparr>Client := c3\<rparr>),
                                     Some (ConnectExistingFailed phoneID err))
                      | None \<Rightarrow> (put_instance wm phoneID (instance\<lparr>Client := c3\<rparr>), None))))"

definition DisconnectClient ::
  "('jid, 'img) WhatsAppManager \<Rightarrow> string \<Rightarrow> ('jid, 'img) WhatsAppManager \<times> error option" where
  "DisconnectClient wm phoneID =
     (case GetClient wm phoneID of
        Inl err \<Rightarrow> (wm, Some err)
      | Inr instance \<Rightarrow>
          (if \<not> Connected instance then (wm, Some (ClientNotConnected phoneID))
           else (put_instance wm phoneID
                   (instance\<lparr>Client := Disconnect (Client instance), Connected := False\<rparr>),
                 None)))"

text \<open>
  The events the handler of lines 150-168 acts on, and its effect on the instance.
  \<open>EvOther\<close> is any other event except a history sync, which is not an event of this
  type.
\<close>

datatype event = EvConnected | EvDisconnected | EvLoggedOut | EvOther

definition connectionStateHandler ::
  "('jid, 'img) WhatsAppInstance \<Rightarrow> event \<Rightarrow> ('jid, 'img) WhatsAppInstance" where
  "connectionStateHandler instance evt =
     (case evt of
        EvConnected \<Rightarrow> instance\<lparr>Connected := True\<rparr>
      | EvDisconnected \<Rightarrow> instance\<lparr>Connected := False\<rparr>
      | EvLoggedOut \<Rightarrow> instance\<lparr>Connected := False\<rparr>
      | EvOther \<Rightarrow> instance)"

text \<open>
  The library calls every registered handler, in order, with each event. No event of
  this type is a history sync, so the type assertion of the history handler (line 91)
  fails on it and that handler does nothing. \<open>deliver\<close> is the library dispatching an event
  on the client of a registered session.
\<close>

fun dispatchEvent ::
  "handler list \<Rightarrow> event \<Rightarrow> ('jid, 'img) WhatsAppInstance \<Rightarrow> ('jid, 'img) WhatsAppInstance" where
  "dispatchEvent [] evt instance = instance"
| "dispatchEvent (h # hs) evt instance =
     dispatchEvent hs evt
       (case h of
          ConnectionStateHandler \<Rightarrow> connectionStateHandler instance evt
        | HistorySyncHandler \<Rightarrow> instance)"




subsection \<open>Fan-out: \<open>ConnectAllClients\<close> and \<open>DisconnectAllClients\<close>\<close>



fun disconnect_each ::
  "('jid, 'img) WhatsAppManager \<Rightarrow> string list \<Rightarrow> error list \<Rightarrow>
   ('jid, 'img) WhatsAppManager \<times> error list" where
  "disconnect_each wm [] errors = (wm, errors)"
| "disconnect_each wm (pid # rest) errors =
     (case DisconnectClient wm pid of
        (wm', Some err) \<Rightarrow> disconnect_each wm' rest (errors @ [DisconnectClientFailed pid err])
      | (wm', None) \<Rightarrow> disconnect_each wm' rest errors)"

definition DisconnectAllClients ::
  "('jid, 'img) WhatsAppManager \<Rightarrow> (string list \<Rightarrow> string list) \<Rightarrow>
   ('jid, 'img) WhatsAppManager \<times> error option" where
  "DisconnectAllClients wm schedule =
     (let phoneIDs = map fst (instances wm);
          (wm', errors) = disconnect_each wm (schedule phoneIDs) []
      in (wm', if length errors > 0 then Some (DisconnectionErrors errors) else None))"

subsection \<open>\<open>CleanupDatabases\<close>\<close>

text \<open>
  \<open>filepath.Join\<close>, \<open>filepath.Glob\<close> and \<open>os.Remove\<close> are the library's, taken as
  parameters: \<open>Glob\<close> answers, for a pattern and the files, an error (a malformed
  pattern) or the list of the matching paths, in its own order; \<open>RemoveError\<close> says on
  which paths \<open>os.Remove\<close> fails.
\<close>

record filepath_lib =
  Join :: "string \<Rightarrow> string \<Rightarrow> string"
  Glob :: "string \<Rightarrow> filesystem \<Rightarrow> error + string list"
  RemoveError :: "string \<Rightarrow> error option"

text \<open>
  The loop of lines 325-331: a file whose removal fails stays, its error is appended,
  and the loop goes on.
\<close>

fun remove_each ::
  "(string \<Rightarrow> error option) \<Rightarrow> string list \<Rightarrow> filesystem \<Rightarrow> error list \<Rightarrow>
   filesystem \<times> error list" where
  "remove_each removeError [] fs errors = (fs, errors)"
| "remove_each removeError (file # rest) fs errors =
     (case removeError file of
        Some err \<Rightarrow> remove_each removeError rest fs (errors @ [RemoveFileFailed file err])
      | None \<Rightarrow> remove_each removeError rest (AList.delete file fs) errors)"

definition CleanupDatabases ::
  "('jid, 'img) WhatsAppManager \<Rightarrow> filepath_lib \<Rightarrow> filesystem \<Rightarrow>
   filesystem \<times> error option" where
  "CleanupDatabases wm L fs =
     (case Glob L (Join L (dbDir wm) ''whatsapp_*.db'') fs of
        Inl err \<Rightarrow> (fs, Some (GlobDatabasesFailed err))
      | Inr matches \<Rightarrow>
          (let (fs', errors) = remove_each (RemoveError L) matches fs []
           in (fs', if length errors > 0 then Some (CleanupErrors errors) else None)))"

section \<open>Derived notions used by the properties\<close>


text \<open>The errors the loop of \<open>CleanupDatabases\<close> collects over a list of paths.\<close>

definition removal_errors :: "(string \<Rightarrow> error option) \<Rightarrow> string list \<Rightarrow> error list" where
  "removal_errors removeError paths =
     concat (map (\<lambda>path. case removeError path of
                            None \<Rightarrow> []
                          | Some err \<Rightarrow> [RemoveFileFailed path err]) paths)"

text \<open>
  The invariant of the media index: every key is the \<open>MessageID\<close> of its entry.
\<close>

definition well_keyed :: "('jid, 'img) history_map \<Rightarrow> bool" where
  "well_keyed m =
     (case m of None \<Rightarrow> True | Some tbl \<Rightarrow> list_all (\<lambda>(k, info). MessageID info = k) tbl)"

text \<open>
  The public operations on one media index, and a run of them. Lookup and listing only
  read. \<open>snapshots_well_keyed\<close> says of a run that every snapshot it loads decodes
  to a table that has the invariant.
\<close>

datatype 'img index_op =
    Ingest "'img HistorySync"
  | Lookup string
  | ListAll
  | Serialize string
  | Deserialize string

fun index_step ::
  "('jid, 'img) collaborators \<Rightarrow> 'img index_op \<Rightarrow>
   ('jid, 'img) WhatsAppDownloader \<times> 'img world \<Rightarrow>
   (('jid, 'img) WhatsAppDownloader \<times> 'img world) exec" where
  "index_step E (Ingest batch) (wd, w) =
     (case processHistorySyncData E wd batch of
        Panicked p \<Rightarrow> Panicked p
      | Done (wd', r) \<Rightarrow> Done (wd', w))"
| "index_step E (Lookup messageID) (wd, w) = Done (wd, w)"
| "index_step E ListAll (wd, w) = Done (wd, w)"
| "index_step E (Serialize filename) (wd, w) = Done (wd, fst (SaveHistoryMetadata E wd filename w))"
| "index_step E (Deserialize filename) (wd, w) = Done (fst (LoadHistoryMetadata E wd filename w), w)"

fun index_run ::
  "('jid, 'img) collaborators \<Rightarrow> 'img index_op list \<Rightarrow>
   ('jid, 'img) WhatsAppDownloader \<times> 'img world \<Rightarrow>
   (('jid, 'img) WhatsAppDownloader \<times> 'img world) exec" where
  "index_run E [] s = Done s"
| "index_run E (op # ops) s =
     (case index_step E op s of Panicked p \<Rightarrow> Panicked p | Done s' \<Rightarrow> index_run E ops s')"

definition snapshot_well_keyed ::
  "('jid, 'img) collaborators \<Rightarrow> 'img index_op \<Rightarrow> 'img world \<Rightarrow> bool" where
  "snapshot_well_keyed E op w =
     (case op of
        Deserialize filename \<Rightarrow>
          (case ReadFile E (files w) filename of
             Inl err \<Rightarrow> True
           | Inr data \<Rightarrow> (case Unmarshal E data of Inl err \<Rightarrow> True | Inr m \<Rightarrow> well_keyed m))
      | _ \<Rightarrow> True)"

fun snapshots_well_keyed ::
  "('jid, 'img) collaborators \<Rightarrow> 'img index_op list \<Rightarrow>
   ('jid, 'img) WhatsAppDownloader \<times> 'img world \<Rightarrow> bool" where
  "snapshots_well_keyed E [] s = True"
| "snapshots_well_keyed E (op # ops) s =
     (snapshot_well_keyed E op (snd s) \<and>
      (case index_step E op s of Panicked p \<Rightarrow> True | Done s' \<Rightarrow> snapshots_well_keyed E ops s'))"

section \<open>Sample collaborators and inputs\<close>

text \<open>
  Concrete collaborators for evaluating the code: JIDs are their text, an image message
  is its URL (\<open>None\<close> for a nil pointer), all times are UTC. \<open>sample_Unmarshal\<close>
  gives what \<open>json.Unmarshal\<close> gives on four inputs: \<open>null\<close> sets the map to nil,
  \<open>{}\<close> makes an empty map, an entry with only \<open>MessageID\<close> leaves the other fields
  zero (the zero \<open>time.Time\<close> is second \<open>-62135596800\<close>), and a lone brace is a
  syntax error.
\<close>

definition sample_Unmarshal :: "string \<Rightarrow> error + (string, string option) history_map" where
  \<open>sample_Unmarshal data =
     (if data = ''null'' then Inr None
      else if data = ''{}'' then Inr (Some [])
      else if data = ''{"m1":{"MessageID":"m2"}}'' then
        Inr (Some [(''m1'', \<lparr>MessageID = ''m2'', ChatJID = '''', SenderJID = '''',
                            Timestamp = - 62135596800, ImageMsg = None, FileName = ''''\<rparr>)])
      else if data = ''{'' then Inl (External ''unexpected end of JSON input'')
      else Inl (External ''input outside this sample''))\<close>

definition sample_FormatTime :: "int \<Rightarrow> string" where
  "sample_FormatTime t =
     (if t = 1700000000 then ''20231114_221320''
      else if t = 1700000060 then ''20231114_221420''
      else ''19700101_000000'')"

definition sample_Download :: "string option \<Rightarrow> error + string" where
  "sample_Download imgMsg =
     (case imgMsg of
        None \<Rightarrow> Inl (External ''nothing downloadable found'')
      | Some url \<Rightarrow>
          (if url = ''https://mmg.whatsapp.net/expired''
           then Inl (External ''download failed with status code 410'')
           else Inr (''JPEG:'' @ url)))"

definition sample_collaborators :: "(string, string option) collaborators" where
  "sample_collaborators =
     \<lparr>ParseJID = Inr,
      FormatTime = sample_FormatTime,
      Download = sample_Download,
      MarshalIndent = (\<lambda>m. case m of None \<Rightarrow> Inr ''null''
                             | Some tbl \<Rightarrow> if tbl = [] then Inr ''{}''
                                          else Inl (External ''input outside this sample'')),
      Unmarshal = sample_Unmarshal,
      ReadFileError = (\<lambda>path. None),
      WriteFileFailure = (\<lambda>path. None)\<rparr>"

definition image_record :: "string \<Rightarrow> 64 word \<Rightarrow> string \<Rightarrow> string option HistorySyncMsg" where
  "image_record messageID ts url =
     HistorySyncMsg (Some \<lparr>KeyID = messageID, MessageTimestamp = ts,
                           Msg = Some (Message (Some (Some url)))\<rparr>)"

definition text_record :: "string \<Rightarrow> 64 word \<Rightarrow> string option HistorySyncMsg" where
  "text_record messageID ts =
     HistorySyncMsg (Some \<lparr>KeyID = messageID, MessageTimestamp = ts,
                           Msg = Some (Message None)\<rparr>)"

definition sample_batch :: "string option HistorySync" where
  "sample_batch =
     [\<lparr>ID = ''6281234567890@s.whatsapp.net'',
       Messages = [image_record ''m1'' 1700000000 ''https://mmg.whatsapp.net/one'',
                   text_record ''t1'' 1700000030,
                   image_record ''m2'' 1700000060 ''https://mmg.whatsapp.net/expired'']\<rparr>]"

text \<open>The media index after that batch.\<close>

definition sample_index :: "(string, string option) WhatsAppDownloader" where
  "sample_index =
     (case processHistorySyncData sample_collaborators (NewWhatsAppDownloader ClientPtr) sample_batch of
        Done (wd, r) \<Rightarrow> wd | Panicked p \<Rightarrow> NewWhatsAppDownloader ClientPtr)"

text \<open>A registry with three sessions, added one second apart.\<close>

definition sample_registry :: "(string, string option) WhatsAppManager" where
  "sample_registry =
     (let wm0 = NewWhatsAppManager ''data'';
          wm1 = fst (AddClient wm0 ''a'' ''20250101_000000'' (Device False));
          wm2 = fst (AddClient wm1 ''b'' ''20250101_000001'' (Device True));
          wm3 = fst (AddClient wm2 ''c'' ''20250101_000002'' (Device True))
      in wm3)"

text \<open>
  A sample of the path library for the directory \<open>data\<close>: \<open>Join\<close> of a clean
  directory name and a file name puts a separator between them; for the pattern
  \<open>data/whatsapp_*.db\<close> and files listed in the order of their paths, \<open>Glob\<close>
  answers the paths \<open>data/whatsapp_\<close>\<^emph>\<open>x\<close>\<open>.db\<close> with no separator in \<^emph>\<open>x\<close>; for the
  pattern \<open>data[/whatsapp_*.db\<close>, whose bracket is never closed, it answers the
  pattern error.
\<close>

fun strip_prefix :: "string \<Rightarrow> string \<Rightarrow> string option" where
  "strip_prefix [] s = Some s"
| "strip_prefix (p # ps) [] = None"
| "strip_prefix (p # ps) (c # cs) = (if p = c then strip_prefix ps cs else None)"

definition whatsapp_db_path :: "string \<Rightarrow> string \<Rightarrow> bool" where
  "whatsapp_db_path dir path =
     (case strip_prefix (dir @ ''/whatsapp_'') path of
        None \<Rightarrow> False
      | Some rest \<Rightarrow>
          (case strip_prefix (rev ''.db'') (rev rest) of
             None \<Rightarrow> False
           | Some mid \<Rightarrow> CHR ''/'' \<notin> set mid))"

definition sample_filepath :: "(string \<Rightarrow> error option) \<Rightarrow> filepath_lib" where
  "sample_filepath removeError =
     \<lparr>Join = (\<lambda>dir name. dir @ ''/'' @ name),
      Glob = (\<lambda>pattern fs.
                if pattern = ''data/whatsapp_*.db''
                then Inr (filter (whatsapp_db_path ''data'') (map fst fs))
                else if pattern = ''data[/whatsapp_*.db''
                then Inl (External ''syntax error in pattern'')
                else Inl (External ''input outside this sample'')),
      RemoveError = removeError\<rparr>"

section \<open>Facts about the samples\<close>

lemma sint_sample [simp]:
  "sint (1700000000 :: 64 word) = 1700000000" "sint (1700000060 :: 64 word) = 1700000060"
  by simp_all

lemma sample_ingest:
  "processHistorySyncData sample_collaborators (NewWhatsAppDownloader ClientPtr) sample_batch =
     Done (\<lparr>client = ClientPtr,
            historyImages = Some
              [(''m1'', \<lparr>MessageID = ''m1'', ChatJID = ''6281234567890@s.whatsapp.net'',
                         SenderJID = ''6281234567890@s.whatsapp.net'', Timestamp = 1700000000,
                         ImageMsg = Some ''https://mmg.whatsapp.net/one'',
                         FileName = ''historical_20231114_221320_m1.jpg''\<rparr>),
               (''m2'', \<lparr>MessageID = ''m2'', ChatJID = ''6281234567890@s.whatsapp.net'',
                         SenderJID = ''6281234567890@s.whatsapp.net'', Timestamp = 1700000060,
                         ImageMsg = Some ''https://mmg.whatsapp.net/expired'',
                         FileName = ''historical_20231114_221420_m2.jpg''\<rparr>)]\<rparr>,
           Inr [])"
  by (simp add: processHistorySyncData_def sample_batch_def sample_collaborators_def
      NewWhatsAppDownloader_def image_record_def text_record_def store_image_def
      imageInfo_of_def sample_FormatTime_def Let_def)

lemma sample_index_eq:
  "sample_index =
     \<lparr>client = ClientPtr,
      historyImages = Some
        [(''m1'', \<lparr>MessageID = ''m1'', ChatJID = ''6281234567890@s.whatsapp.net'',
                   SenderJID = ''6281234567890@s.whatsapp.net'', Timestamp = 1700000000,
                   ImageMsg = Some ''https://mmg.whatsapp.net/one'',
                   FileName = ''historical_20231114_221320_m1.jpg''\<rparr>),
         (''m2'', \<lparr>MessageID = ''m2'', ChatJID = ''6281234567890@s.whatsapp.net'',
                   SenderJID = ''6281234567890@s.whatsapp.net'', Timestamp = 1700000060,
                   ImageMsg = Some ''https://mmg.whatsapp.net/expired'',
                   FileName = ''historical_20231114_221420_m2.jpg''\<rparr>)]\<rparr>"
  by (simp add: sample_index_def sample_ingest)

lemma sample_registry_eq:
  "sample_registry =
     \<lparr>instances =
        [(''a'', \<lparr>Client = \<lparr>eventHandlers = [], StoreID = False, calls = []\<rparr>,
                  Downloader = \<lparr>client = ClientPtr, historyImages = Some []\<rparr>,
                  Database = ''data/whatsapp_a_20250101_000000.db'', PhoneID = ''a'',
                  Connected = False\<rparr>),
         (''b'', \<lparr>Client = \<lparr>eventHandlers = [], StoreID = True, calls = []\<rparr>,
                  Downloader = \<lparr>client = ClientPtr, historyImages = Some []\<rparr>,
                  Database = ''data/whatsapp_b_20250101_000001.db'', PhoneID = ''b'',
                  Connected = False\<rparr>),
         (''c'', \<lparr>Client = \<lparr>eventHandlers = [], StoreID = True, calls = []\<rparr>,
                  Downloader = \<lparr>client = ClientPtr, historyImages = Some []\<rparr>,
                  Database = ''data/whatsapp_c_20250101_000002.db'', PhoneID = ''c'',
                  Connected = False\<rparr>)],
      dbDir = ''data''\<rparr>"
  by (simp add: sample_registry_def AddClient_def NewWhatsAppManager_def
      generateDatabaseName_def NewWhatsAppDownloader_def Let_def)

lemma glob_samples:
  "whatsapp_db_path ''data'' ''data/whatsapp_a_20250101_000000.db''"
  "whatsapp_db_path ''data'' ''data/whatsapp_b_20250101_000001.db''"
  "whatsapp_db_path ''data'' ''data/whatsapp_old_20240101_000000.db''"
  "\<not> whatsapp_db_path ''data'' ''data/notes.txt''"
  by (simp_all add: whatsapp_db_path_def)

section \<open>The registry\<close>

subsection \<open>\<open>AddClient\<close>\<close>

text \<open>
  C10. When \<open>AddClient\<close> on a name that is not registered fails (the device store
  cannot be created, or the device cannot be read), it returns the error and the registry
  is the one before the call; \<open>GetClient\<close> on that name then answers not found.
\<close>

theorem AddClient_failure_keeps_registry:
  assumes "map_of (instances wm) phoneID = None"
    and "AddClient wm phoneID timestamp outcome = (wm', Inl err)"
  shows "wm' = wm \<and> GetClient wm' phoneID = Inl (ClientNotFound phoneID)"
  using assms by (auto simp: AddClient_def GetClient_def Let_def split: device_outcome.splits)

theorem AddClient_failure_keeps_registry_witness:
  "map_of (instances sample_registry) ''d'' = None \<and>
   AddClient sample_registry ''d'' ''20250101_000003'' (DeviceError (External ''database is locked''))
     = (sample_registry, Inl (GetDeviceFailed ''d'' (External ''database is locked''))) \<and>
   GetClient sample_registry ''d'' = Inl (ClientNotFound ''d'')"
  using AddClient_failure_keeps_registry[of sample_registry "''d''" "''20250101_000003''"
      "DeviceError (External ''database is locked'')" sample_registry
      "GetDeviceFailed ''d'' (External ''database is locked'')"]
  by (simp add: sample_registry_eq AddClient_def)

subsection \<open>\<open>ConnectClient\<close>\<close>

lemma AddClient_distinct:
  "distinct (map fst (instances wm)) \<Longrightarrow>
   distinct (map fst (instances (fst (AddClient wm phoneID timestamp outcome))))"
  by (auto simp: AddClient_def Let_def distinct_update split: device_outcome.splits)

lemma RemoveClient_distinct:
  "distinct (map fst (instances wm)) \<Longrightarrow>
   distinct (map fst (instances (fst (RemoveClient wm phoneID))))"
  by (auto simp: RemoveClient_def distinct_delete split: option.splits)





lemma ConnectClient_appends_handlers:
  assumes "map_of (instances wm) pid = Some inst" and "\<not> Connected inst"
    and "client (Downloader inst) = ClientPtr"
  shows "\<exists>inst'. map_of (instances (fst (ConnectClient wm pid r q))) pid = Some inst' \<and>
           eventHandlers (Client inst') =
             eventHandlers (Client inst) @ [HistorySyncHandler, ConnectionStateHandler]"
  using assms
  by (auto simp: ConnectClient_def GetClient_def put_instance_def Let_def update_conv'
      AddEventHandler_def AddHistorySyncHandlers_def split: option.splits)

lemma dispatchEvent_Database [simp]:
  "Database (dispatchEvent hs evt inst) = Database inst"
  by (induction hs arbitrary: inst)
     (auto simp: connectionStateHandler_def split: handler.splits event.splits)


lemma dispatchEvent_unhandled:
  "ConnectionStateHandler \<notin> set hs \<Longrightarrow> dispatchEvent hs evt inst = inst"
  by (induction hs arbitrary: inst) (auto split: handler.splits)



text \<open>
  C1. The callbacks are not registered once per handle: every \<open>ConnectClient\<close> that
  finds the instance not connected adds both handlers again. One session is added; the
  first \<open>ConnectClient\<close> fails in \<open>Client.Connect()\<close> and leaves the two handlers
  registered; the second \<open>ConnectClient\<close> succeeds and leaves four.
\<close>

theorem ConnectClient_twice_registers_handlers_twice:
  "(let wm0 = fst (AddClient (NewWhatsAppManager ''data'' :: (string, string option) WhatsAppManager)
                     ''a'' ''20250101_000000'' (Device True));
        wm1 = fst (ConnectClient wm0 ''a'' (Some (External ''websocket dial failed'')) False);
        wm2 = fst (ConnectClient wm1 ''a'' None False)
    in map_option (\<lambda>i. eventHandlers (Client i)) (map_of (instances wm1) ''a'') =
         Some [HistorySyncHandler, ConnectionStateHandler] \<and>
       map_option (\<lambda>i. eventHandlers (Client i)) (map_of (instances wm2) ''a'') =
         Some [HistorySyncHandler, ConnectionStateHandler,
               HistorySyncHandler, ConnectionStateHandler])"
  by (simp add: AddClient_def NewWhatsAppManager_def generateDatabaseName_def
      NewWhatsAppDownloader_def ConnectClient_def GetClient_def put_instance_def
      AddHistorySyncHandlers_def AddEventHandler_def Let_def)

subsection \<open>\<open>ConnectAllClients\<close>\<close>





subsection \<open>\<open>CleanupDatabases\<close>\<close>

lemma delete_filter: "AList.delete k al = filter (\<lambda>e. fst e \<noteq> k) al"
  by (induction al) auto

lemma remove_each_spec:
  "remove_each removeError paths fs acc =
     (filter (\<lambda>e. \<not> (fst e \<in> set paths \<and> removeError (fst e) = None)) fs,
      acc @ removal_errors removeError paths)"
proof (induction paths arbitrary: fs acc)
  case Nil
  show ?case by (simp add: removal_errors_def)
next
  case (Cons p rest)
  show ?case
  proof (cases "removeError p")
    case None
    have "filter (\<lambda>e. \<not> (fst e \<in> set rest \<and> removeError (fst e) = None))
            (filter (\<lambda>e. fst e \<noteq> p) fs) =
          filter (\<lambda>e. \<not> (fst e \<in> set (p # rest) \<and> removeError (fst e) = None)) fs"
      using None by (auto intro!: filter_cong)
    then show ?thesis using None Cons.IH[of "AList.delete p fs" acc]
      by (simp add: delete_filter removal_errors_def)
  next
    case (Some err)
    have "filter (\<lambda>e. \<not> (fst e \<in> set rest \<and> removeError (fst e) = None)) fs =
          filter (\<lambda>e. \<not> (fst e \<in> set (p # rest) \<and> removeError (fst e) = None)) fs"
      using Some by (auto intro!: filter_cong)
    then show ?thesis using Some Cons.IH[of fs "acc @ [RemoveFileFailed p err]"]
      by (simp add: removal_errors_def)
  qed
qed

text \<open>
  C3, as the code has it. When the glob of \<open>dbDir/whatsapp_*.db\<close> fails,
  \<open>CleanupDatabases\<close> returns that error and removes nothing. Otherwise it removes
  every path the glob answered whose \<open>os.Remove\<close> succeeds, whether or not a registered
  session uses it (the registry's entries are not read); the other files stay as they
  are; the failures are collected over all the paths, in the glob's order, and returned
  as one error, nil when there is none.
\<close>

theorem CleanupDatabases_removes_every_match:
  "CleanupDatabases wm L fs =
     (case Glob L (Join L (dbDir wm) ''whatsapp_*.db'') fs of
        Inl err \<Rightarrow> (fs, Some (GlobDatabasesFailed err))
      | Inr matches \<Rightarrow>
          (filter (\<lambda>e. \<not> (fst e \<in> set matches \<and> RemoveError L (fst e) = None)) fs,
           if removal_errors (RemoveError L) matches = [] then None
           else Some (CleanupErrors (removal_errors (RemoveError L) matches))))"
  by (simp add: CleanupDatabases_def remove_each_spec split: sum.splits)

theorem CleanupDatabases_removes_every_match_witness:
  "CleanupDatabases sample_registry
     (sample_filepath (\<lambda>path. if path = ''data/whatsapp_b_20250101_000001.db''
                               then Some (External ''permission denied'') else None))
     [(''data/notes.txt'', ''text''),
      (''data/whatsapp_a_20250101_000000.db'', ''sqlite''),
      (''data/whatsapp_b_20250101_000001.db'', ''sqlite''),
      (''data/whatsapp_old_20240101_000000.db'', ''sqlite'')]
   = ([(''data/notes.txt'', ''text''), (''data/whatsapp_b_20250101_000001.db'', ''sqlite'')],
      Some (CleanupErrors [RemoveFileFailed ''data/whatsapp_b_20250101_000001.db''
                             (External ''permission denied'')])) \<and>
   CleanupDatabases (NewWhatsAppManager ''data['' :: (string, string option) WhatsAppManager)
     (sample_filepath (\<lambda>path. None))
     [(''data[/whatsapp_a_20250101_000000.db'', ''sqlite'')]
   = ([(''data[/whatsapp_a_20250101_000000.db'', ''sqlite'')],
      Some (GlobDatabasesFailed (External ''syntax error in pattern'')))"
  using CleanupDatabases_removes_every_match[of sample_registry
     "sample_filepath (\<lambda>path. if path = ''data/whatsapp_b_20250101_000001.db''
                               then Some (External ''permission denied'') else None)"
     "[(''data/notes.txt'', ''text''),
      (''data/whatsapp_a_20250101_000000.db'', ''sqlite''),
      (''data/whatsapp_b_20250101_000001.db'', ''sqlite''),
      (''data/whatsapp_old_20240101_000000.db'', ''sqlite'')]"]
    CleanupDatabases_removes_every_match[of
     "NewWhatsAppManager ''data['' :: (string, string option) WhatsAppManager"
     "sample_filepath (\<lambda>path. None)"
     "[(''data[/whatsapp_a_20250101_000000.db'', ''sqlite'')]"]
  by (simp add: sample_registry_eq sample_filepath_def glob_samples removal_errors_def
      NewWhatsAppManager_def)

text \<open>
  C3 as stated fails: the database of the registered session \<open>a\<close> exists before
  \<open>CleanupDatabases\<close> and is removed by it.
\<close>

theorem CleanupDatabases_live_session_counterexample:
  "map_option Database (map_of (instances sample_registry) ''a'') =
     Some ''data/whatsapp_a_20250101_000000.db'' \<and>
   Stat [(''data/whatsapp_a_20250101_000000.db'', ''sqlite'')] ''data/whatsapp_a_20250101_000000.db'' \<and>
   CleanupDatabases sample_registry (sample_filepath (\<lambda>path. None))
     [(''data/whatsapp_a_20250101_000000.db'', ''sqlite'')] = ([], None)"
  by (simp add: sample_registry_eq CleanupDatabases_def sample_filepath_def glob_samples
      Stat_def)

section \<open>The snapshot\<close>

text \<open>
  C5. When the file is read but \<open>json.Unmarshal\<close> rejects its content,
  \<open>LoadHistoryMetadata\<close> returns the unmarshal error and the downloader, with its
  table, is the one before the call.
\<close>

theorem LoadHistoryMetadata_malformed_keeps_table:
  assumes "ReadFile E (files w) filename = Inr data"
    and "Unmarshal E data = Inl err"
  shows "LoadHistoryMetadata E wd filename w = (wd, Some (UnmarshalMetadataFailed err))"
  using assms by (simp add: LoadHistoryMetadata_def)

theorem LoadHistoryMetadata_malformed_keeps_table_witness:
  "ReadFile sample_collaborators
     (files \<lparr>files = [(''history_images.json'', ''{'')], downloadLog = []\<rparr>)
     ''history_images.json'' = Inr ''{'' \<and>
   Unmarshal sample_collaborators ''{'' = Inl (External ''unexpected end of JSON input'') \<and>
   LoadHistoryMetadata sample_collaborators sample_index ''history_images.json''
       \<lparr>files = [(''history_images.json'', ''{'')], downloadLog = []\<rparr>
     = (sample_index, Some (UnmarshalMetadataFailed (External ''unexpected end of JSON input'')))"
  using LoadHistoryMetadata_malformed_keeps_table[of sample_collaborators
      "\<lparr>files = [(''history_images.json'', ''{'')], downloadLog = []\<rparr>"
      "''history_images.json''" "''{''" "External ''unexpected end of JSON input''" sample_index]
  by (simp add: ReadFile_def sample_collaborators_def sample_Unmarshal_def)

text \<open>
  Loading what was just saved: when the table marshals and the file is written and read
  back, \<open>LoadHistoryMetadata\<close> after \<open>SaveHistoryMetadata\<close> installs exactly what
  \<open>json.Unmarshal\<close> makes of the output of \<open>json.MarshalIndent\<close>.
\<close>

lemma Save_then_Load:
  assumes "MarshalIndent E (historyImages wd) = Inr blob"
    and "WriteFileFailure E filename = None" and "ReadFileError E filename = None"
    and "SaveHistoryMetadata E wd filename w = (w', r)"
  shows "r = None \<and>
         LoadHistoryMetadata E wd0 filename w' =
           (case Unmarshal E blob of
              Inl err \<Rightarrow> (wd0, Some (UnmarshalMetadataFailed err))
            | Inr m \<Rightarrow> (wd0\<lparr>historyImages := m\<rparr>, None))"
  using assms
  by (auto simp: SaveHistoryMetadata_def LoadHistoryMetadata_def WriteFile_def ReadFile_def
      update_conv' split: sum.splits)

section \<open>The media index\<close>

subsection \<open>Ingest\<close>

lemma processHistorySyncData_returns_no_names:
  "processHistorySyncData E wd batch = Done (wd', Inr names) \<Longrightarrow> names = []"
  by (auto simp: processHistorySyncData_def Let_def split: if_splits exec.splits)

text \<open>
  C6. On a batch of three records, two with an image and one without, ingested into an
  empty index, \<open>processHistorySyncData\<close> records the two image records (the listing
  has two items) and returns the empty list: nothing in what it returns counts them.
\<close>

theorem Ingest_returns_empty_list:
  "(case processHistorySyncData sample_collaborators (NewWhatsAppDownloader ClientPtr) sample_batch of
      Done (wd, r) \<Rightarrow> r = Inr [] \<and> length (ListHistoricalImages wd) = 2
    | Panicked p \<Rightarrow> False)"
  by (simp add: sample_ingest ListHistoricalImages_def)

text \<open>
  C9. Loading the snapshot \<open>null\<close> succeeds and sets the table to the nil map; the
  next ingest of a batch holding an image panics on the assignment of line 171.
\<close>

theorem Ingest_after_null_snapshot_panics:
  "(case LoadHistoryMetadata sample_collaborators (NewWhatsAppDownloader ClientPtr)
           ''history_images.json''
           \<lparr>files = [(''history_images.json'', ''null'')], downloadLog = []\<rparr> of
      (wd, err) \<Rightarrow> err = None \<and>
         processHistorySyncData sample_collaborators wd sample_batch =
           Panicked ''assignment to entry in nil map'')"
  by (simp add: LoadHistoryMetadata_def ReadFile_def sample_collaborators_def sample_Unmarshal_def
      processHistorySyncData_def sample_batch_def NewWhatsAppDownloader_def image_record_def
      text_record_def store_image_def)

subsection \<open>Keys and message IDs\<close>

lemma update_list_all:
  "list_all P tbl \<Longrightarrow> P (k, v) \<Longrightarrow> list_all P (AList.update k v tbl)"
  by (induction tbl) auto

lemma store_image_well_keyed:
  assumes "well_keyed (historyImages wd)"
    and "store_image wd (imageInfo_of E jid webMsg imgMsg) = Done wd'"
  shows "well_keyed (historyImages wd')"
  using assms
  by (auto simp: store_image_def well_keyed_def imageInfo_of_def Let_def
      intro!: update_list_all split: option.splits)

lemma process_messages_well_keyed:
  "well_keyed (historyImages wd) \<Longrightarrow> process_messages E jid msgs wd = Done wd' \<Longrightarrow>
   well_keyed (historyImages wd')"
proof (induction msgs arbitrary: wd)
  case Nil
  then show ?case by simp
next
  case (Cons m rest)
  then show ?case
    by (auto split: option.splits exec.splits dest: store_image_well_keyed)
qed

lemma process_conversations_well_keyed:
  "well_keyed (historyImages wd) \<Longrightarrow> process_conversations E convs wd = Done wd' \<Longrightarrow>
   well_keyed (historyImages wd')"
proof (induction convs arbitrary: wd)
  case Nil
  then show ?case by simp
next
  case (Cons c rest)
  then show ?case
    by (auto split: if_splits sum.splits exec.splits dest: process_messages_well_keyed)
qed

lemma processHistorySyncData_well_keyed:
  "well_keyed (historyImages wd) \<Longrightarrow> processHistorySyncData E wd batch = Done (wd', r) \<Longrightarrow>
   well_keyed (historyImages wd')"
  by (auto simp: processHistorySyncData_def Let_def split: if_splits exec.splits
      dest: process_conversations_well_keyed)

lemma LoadHistoryMetadata_well_keyed:
  "well_keyed (historyImages wd) \<Longrightarrow> snapshot_well_keyed E (Deserialize filename) w \<Longrightarrow>
   well_keyed (historyImages (fst (LoadHistoryMetadata E wd filename w)))"
  by (auto simp: LoadHistoryMetadata_def snapshot_well_keyed_def split: sum.splits)

lemma index_step_well_keyed:
  assumes "well_keyed (historyImages (fst s))" and "snapshot_well_keyed E op (snd s)"
    and "index_step E op s = Done s'"
  shows "well_keyed (historyImages (fst s'))"
proof (cases s)
  case (Pair wd w)
  show ?thesis
  proof (cases op)
    case (Ingest batch)
    then show ?thesis using assms Pair
      by (auto split: exec.splits dest: processHistorySyncData_well_keyed)
  next
    case (Deserialize filename)
    then show ?thesis using assms Pair LoadHistoryMetadata_well_keyed[of wd E filename w]
      by auto
  qed (use assms Pair in auto)
qed

lemma index_run_preserves_well_keyed:
  "well_keyed (historyImages (fst s)) \<Longrightarrow> snapshots_well_keyed E ops s \<Longrightarrow>
   index_run E ops s = Done s' \<Longrightarrow> well_keyed (historyImages (fst s'))"
proof (induction ops arbitrary: s)
  case Nil
  then show ?case by simp
next
  case (Cons op ops)
  from Cons.prems(3) obtain s1 where s1: "index_step E op s = Done s1"
    and run: "index_run E ops s1 = Done s'"
    by (auto split: exec.splits)
  have "well_keyed (historyImages (fst s1))"
    using index_step_well_keyed[OF Cons.prems(1) _ s1] Cons.prems(2) by simp
  moreover have "snapshots_well_keyed E ops s1" using Cons.prems(2) s1 by simp
  ultimately show ?case using Cons.IH run by blast
qed

lemma snapshot_well_keyed_reads:
  "snapshot_well_keyed E (Ingest batch) w" "snapshot_well_keyed E (Lookup messageID) w"
  "snapshot_well_keyed E ListAll w" "snapshot_well_keyed E (Serialize filename) w"
  by (simp_all add: snapshot_well_keyed_def)

text \<open>
  C8, as the code has it. From a new downloader, after any run of ingests, lookups,
  listings, saves and loads in which every snapshot that is loaded decodes to a table
  whose keys are the \<open>MessageID\<close>s of their entries, every key of the table is the
  \<open>MessageID\<close> of its entry.
\<close>

theorem reachable_index_well_keyed:
  assumes "snapshots_well_keyed E ops (NewWhatsAppDownloader c, w)"
    and "index_run E ops (NewWhatsAppDownloader c, w) = Done (wd', w')"
  shows "well_keyed (historyImages wd')"
  using index_run_preserves_well_keyed[OF _ assms(1) assms(2)]
  by (simp add: NewWhatsAppDownloader_def well_keyed_def)

theorem reachable_index_well_keyed_witness:
  "snapshots_well_keyed sample_collaborators
     [Serialize ''history_images.json'', Ingest sample_batch, Lookup ''m1'',
      Deserialize ''history_images.json'', Ingest sample_batch, ListAll]
     (NewWhatsAppDownloader ClientPtr, \<lparr>files = [], downloadLog = []\<rparr>) \<and>
   index_run sample_collaborators
     [Serialize ''history_images.json'', Ingest sample_batch, Lookup ''m1'',
      Deserialize ''history_images.json'', Ingest sample_batch, ListAll]
     (NewWhatsAppDownloader ClientPtr, \<lparr>files = [], downloadLog = []\<rparr>)
     = Done (sample_index, \<lparr>files = [(''history_images.json'', ''{}'')], downloadLog = []\<rparr>) \<and>
   well_keyed (historyImages sample_index)"
proof -
  have save: "SaveHistoryMetadata sample_collaborators (NewWhatsAppDownloader ClientPtr)
                ''history_images.json'' \<lparr>files = [], downloadLog = []\<rparr> =
              (\<lparr>files = [(''history_images.json'', ''{}'')], downloadLog = []\<rparr>, None)"
    by (simp add: SaveHistoryMetadata_def WriteFile_def sample_collaborators_def
        NewWhatsAppDownloader_def)
  have load: "LoadHistoryMetadata sample_collaborators sample_index ''history_images.json''
                \<lparr>files = [(''history_images.json'', ''{}'')], downloadLog = []\<rparr> =
              (NewWhatsAppDownloader ClientPtr, None)"
    by (simp add: LoadHistoryMetadata_def ReadFile_def sample_collaborators_def
        sample_Unmarshal_def sample_index_eq NewWhatsAppDownloader_def)
  have ingest: "processHistorySyncData sample_collaborators (NewWhatsAppDownloader ClientPtr)
                  sample_batch = Done (sample_index, Inr [])"
    by (simp add: sample_ingest sample_index_eq)
  have snap: "snapshot_well_keyed sample_collaborators (Deserialize ''history_images.json'')
                \<lparr>files = [(''history_images.json'', ''{}'')], downloadLog = []\<rparr>"
    by (simp add: snapshot_well_keyed_def ReadFile_def sample_collaborators_def
        sample_Unmarshal_def well_keyed_def)
  have guard: "snapshots_well_keyed sample_collaborators
     [Serialize ''history_images.json'', Ingest sample_batch, Lookup ''m1'',
      Deserialize ''history_images.json'', Ingest sample_batch, ListAll]
     (NewWhatsAppDownloader ClientPtr, \<lparr>files = [], downloadLog = []\<rparr>)"
    by (simp add: save load ingest snap snapshot_well_keyed_reads)
  have run: "index_run sample_collaborators
     [Serialize ''history_images.json'', Ingest sample_batch, Lookup ''m1'',
      Deserialize ''history_images.json'', Ingest sample_batch, ListAll]
     (NewWhatsAppDownloader ClientPtr, \<lparr>files = [], downloadLog = []\<rparr>)
     = Done (sample_index, \<lparr>files = [(''history_images.json'', ''{}'')], downloadLog = []\<rparr>)"
    by (simp add: save load ingest)
  from reachable_index_well_keyed[OF guard run] guard run show ?thesis by simp
qed

text \<open>
  C8 as stated fails: a well-formed snapshot whose entry under key \<open>m1\<close> has
  \<open>MessageID\<close> \<open>m2\<close> is loaded as it is.
\<close>

theorem Deserialize_breaks_key_invariant_counterexample:
  \<open>index_run sample_collaborators [Deserialize ''history_images.json'']
      (NewWhatsAppDownloader ClientPtr,
       \<lparr>files = [(''history_images.json'', ''{"m1":{"MessageID":"m2"}}'')], downloadLog = []\<rparr>)
    = Done (\<lparr>client = ClientPtr, historyImages = Some [(''m1'', \<lparr>MessageID = ''m2'', ChatJID = '''', SenderJID = '''',
                            Timestamp = - 62135596800, ImageMsg = None, FileName = ''''\<rparr>)]\<rparr>,
       \<lparr>files = [(''history_images.json'', ''{"m1":{"MessageID":"m2"}}'')], downloadLog = []\<rparr>)
   \<and> \<not> well_keyed (Some [(''m1'', \<lparr>MessageID = ''m2'', ChatJID = '''', SenderJID = '''',
                            Timestamp = - 62135596800, ImageMsg = (None :: string option), FileName = ''''\<rparr>)])\<close>
  by (simp add: LoadHistoryMetadata_def ReadFile_def sample_collaborators_def
      sample_Unmarshal_def NewWhatsAppDownloader_def well_keyed_def)

subsection \<open>Fetch\<close>

text \<open>
  C2, as the code has it. For a message ID of the index of a downloader that has a
  client: when the file exists, the fetch returns its path and leaves the world, and so
  the log of \<open>Download\<close> calls, as it was; when it does not, the fetch makes exactly
  one \<open>Download\<close> call, and then either the download fails (an error, and the files
  are as they were), or the write fails (an error; a failure at the open leaves the files
  as they were, a later one leaves the partly written file), or the path is returned and
  holds the downloaded bytes.
\<close>

theorem Fetch_hit_and_miss:
  assumes "GetHistoricalImageInfo wd messageID = Some info" and "client wd = ClientPtr"
    and "DownloadHistoricalImageByMessageID E wd messageID w = (w', result)"
  shows "if Stat (files w) (FileName info)
         then w' = w \<and> result = Inr (FileName info)
         else downloadLog w' = downloadLog w @ [ImageMsg info] \<and>
              (case Download E (ImageMsg info) of
                 Inl err \<Rightarrow>
                   result = Inl (DownloadHistoricalFailed (MessageID info) (DownloadImageFailed err))
                   \<and> files w' = files w
               | Inr data \<Rightarrow>
                   (case WriteFileFailure E (FileName info) of
                      None \<Rightarrow> result = Inr (FileName info)
                              \<and> map_of (files w') (FileName info) = Some data
                    | Some (OpenFailed err) \<Rightarrow>
                        result = Inl (SaveHistoricalFailed (FileName info) err)
                        \<and> files w' = files w
                    | Some (WriteFailed err n) \<Rightarrow>
                        result = Inl (SaveHistoricalFailed (FileName info) err)
                        \<and> map_of (files w') (FileName info) = Some (take n data)))"
  using assms
  by (auto simp: DownloadHistoricalImageByMessageID_def DownloadHistoricalImage_def
        DownloadImage_def WriteFile_def Stat_def update_conv' Let_def
      split: sum.splits option.splits write_failure.splits)

theorem Fetch_hit_and_miss_witness:
  "GetHistoricalImageInfo sample_index ''m1'' =
     Some \<lparr>MessageID = ''m1'', ChatJID = ''6281234567890@s.whatsapp.net'',
           SenderJID = ''6281234567890@s.whatsapp.net'', Timestamp = 1700000000,
           ImageMsg = Some ''https://mmg.whatsapp.net/one'',
           FileName = ''historical_20231114_221320_m1.jpg''\<rparr> \<and>
   client sample_index = ClientPtr \<and>
   DownloadHistoricalImageByMessageID sample_collaborators sample_index ''m1''
       \<lparr>files = [], downloadLog = []\<rparr>
     = (\<lparr>files = [(''historical_20231114_221320_m1.jpg'', ''JPEG:https://mmg.whatsapp.net/one'')],
         downloadLog = [Some ''https://mmg.whatsapp.net/one'']\<rparr>,
        Inr ''historical_20231114_221320_m1.jpg'') \<and>
   DownloadHistoricalImageByMessageID sample_collaborators sample_index ''m1''
       \<lparr>files = [(''historical_20231114_221320_m1.jpg'', ''JPEG:https://mmg.whatsapp.net/one'')],
         downloadLog = [Some ''https://mmg.whatsapp.net/one'']\<rparr>
     = (\<lparr>files = [(''historical_20231114_221320_m1.jpg'', ''JPEG:https://mmg.whatsapp.net/one'')],
         downloadLog = [Some ''https://mmg.whatsapp.net/one'']\<rparr>,
        Inr ''historical_20231114_221320_m1.jpg'')"
  using Fetch_hit_and_miss[of sample_index "''m1''"
      "\<lparr>MessageID = ''m1'', ChatJID = ''6281234567890@s.whatsapp.net'',
           SenderJID = ''6281234567890@s.whatsapp.net'', Timestamp = 1700000000,
           ImageMsg = Some ''https://mmg.whatsapp.net/one'',
           FileName = ''historical_20231114_221320_m1.jpg''\<rparr>"
      sample_collaborators "\<lparr>files = [], downloadLog = []\<rparr>"
      "\<lparr>files = [(''historical_20231114_221320_m1.jpg'', ''JPEG:https://mmg.whatsapp.net/one'')],
         downloadLog = [Some ''https://mmg.whatsapp.net/one'']\<rparr>"
      "Inr ''historical_20231114_221320_m1.jpg''"]
  by (simp add: sample_index_eq GetHistoricalImageInfo_def DownloadHistoricalImageByMessageID_def
      DownloadHistoricalImage_def DownloadImage_def WriteFile_def Stat_def
      sample_collaborators_def sample_Download_def Let_def)

text \<open>
  A write that fails after the open leaves the truncated file behind, and the next fetch
  of the same message finds it and returns its path without a download.
\<close>

lemma Fetch_after_failed_write:
  "DownloadHistoricalImageByMessageID
     (sample_collaborators\<lparr>WriteFileFailure :=
        (\<lambda>path. Some (WriteFailed (External ''no space left on device'') 0))\<rparr>)
     sample_index ''m1'' \<lparr>files = [], downloadLog = []\<rparr>
   = (\<lparr>files = [(''historical_20231114_221320_m1.jpg'', [])],
       downloadLog = [Some ''https://mmg.whatsapp.net/one'']\<rparr>,
      Inl (SaveHistoricalFailed ''historical_20231114_221320_m1.jpg''
             (External ''no space left on device''))) \<and>
   DownloadHistoricalImageByMessageID sample_collaborators sample_index ''m1''
     \<lparr>files = [(''historical_20231114_221320_m1.jpg'', [])],
       downloadLog = [Some ''https://mmg.whatsapp.net/one'']\<rparr>
   = (\<lparr>files = [(''historical_20231114_221320_m1.jpg'', [])],
       downloadLog = [Some ''https://mmg.whatsapp.net/one'']\<rparr>,
      Inr ''historical_20231114_221320_m1.jpg'')"
  by (simp add: sample_index_eq GetHistoricalImageInfo_def DownloadHistoricalImageByMessageID_def
      DownloadHistoricalImage_def DownloadImage_def WriteFile_def Stat_def
      sample_collaborators_def sample_Download_def Let_def)

text \<open>
  C2 as stated fails: the message is in the index, its file does not exist, the download
  fails; the fetch returns an error, not the path, and writes nothing.
\<close>

theorem Fetch_failed_download_counterexample:
  "GetHistoricalImageInfo sample_index ''m2'' \<noteq> None \<and>
   \<not> Stat [] ''historical_20231114_221420_m2.jpg'' \<and>
   DownloadHistoricalImageByMessageID sample_collaborators sample_index ''m2''
       \<lparr>files = [], downloadLog = []\<rparr>
     = (\<lparr>files = [], downloadLog = [Some ''https://mmg.whatsapp.net/expired'']\<rparr>,
        Inl (DownloadHistoricalFailed ''m2''
               (DownloadImageFailed (External ''download failed with status code 410''))))"
  by (simp add: sample_index_eq GetHistoricalImageInfo_def DownloadHistoricalImageByMessageID_def
      DownloadHistoricalImage_def DownloadImage_def WriteFile_def Stat_def
      sample_collaborators_def sample_Download_def Let_def)

end
